theory Spec2Isabelle
  imports Main
begin

section \<open>Shared vocabulary: errors, contexts, messages, log records\<close>

text \<open>
  A Go \<^verbatim>\<open>error\<close> is \<open>err option\<close>: \<open>None\<close> is \<^verbatim>\<open>nil\<close>.

  Modelled from the spec: package \<^verbatim>\<open>syserr\<close> (the structured error facility that section 1
  lists as an external collaborator) is not under src/. Its two constructors used by the
  router, \<^verbatim>\<open>syserr.New(code, msg)\<close> and \<^verbatim>\<open>syserr.WrapAsIs(err, msg, fields...)\<close>, are kept
  as free constructors, so nothing is assumed about them except that they build an error.
  \<open>Foreign\<close> stands for an error value made outside the repository (by a handler or by
  the transport); the last five constructors are the lifecycle and registration errors
  that sections 4.2, 4.6 and 7 of the spec name.
\<close>

datatype Code = InvalidArgumentCode | InternalCode

datatype err =
    SysErr Code string
  | Wrapped err string "(string \<times> string) list"
  | Foreign string
  | DuplicateRegistration string
  | RouterRunningError
  | AlreadyRunningError
  | TerminalStateError
  | CloseTimeoutError

definition syserr_New :: "Code \<Rightarrow> string \<Rightarrow> err" where
  "syserr_New code text = SysErr code text"

definition syserr_WrapAsIs :: "err \<Rightarrow> string \<Rightarrow> (string \<times> string) list \<Rightarrow> err" where
  "syserr_WrapAsIs e text attrs = Wrapped e text attrs"

text \<open>
  \<^verbatim>\<open>context.Context\<close>: the root context and the three ways the standard library derives
  one (a value, a cancellation flag, a deadline).
\<close>

datatype Ctx =
    Background
  | WithValue Ctx string string
  | WithCancel Ctx bool
  | WithTimeout Ctx nat

text \<open>
  \<^verbatim>\<open>message.Message\<close> of the transport library, as far as the repository reads and writes
  it: the UUID, the metadata (\<^verbatim>\<open>Metadata.Set(k, v)\<close> is a map update), the payload bytes and
  the context the message carries (\<^verbatim>\<open>msg.Context()\<close>).
\<close>

record Message =
  UUID :: string
  Metadata :: "string \<rightharpoonup> string"
  Payload :: string
  Context :: Ctx

definition Metadata_Set :: "string \<Rightarrow> string \<Rightarrow> Message \<Rightarrow> Message" where
  "Metadata_Set k v m = m\<lparr>Metadata := (Metadata m)(k \<mapsto> v)\<rparr>"

text \<open>
  Log output is instrumentation: a record is a level, the context handed to the logger
  (only the \<^verbatim>\<open>logger\<close> package of the repository takes one), the text and the attributes.
\<close>

datatype Level = LevelDebug | LevelInfo

datatype Attr = AStr string | ADur nat | AErr "err option"

type_synonym LogRecord = "Level \<times> Ctx option \<times> string \<times> (string \<times> Attr) list"

section \<open>Topic naming (NewBus, generateEventTopic and generateCommandTopic)\<close>

text \<open>
  \<^verbatim>\<open>fmt.Sprintf\<close> restricted to what the two format strings of the source use: the verb
  \<^verbatim>\<open>%s\<close> with string operands. A verb without an operand prints Go's \<^verbatim>\<open>%!s(MISSING)\<close>; every
  other character is copied.
\<close>

fun Sprintf :: "string \<Rightarrow> string list \<Rightarrow> string" where
  "Sprintf [] args = []"
| "Sprintf [c] args = [c]"
| "Sprintf (c # d # rest) args =
     (if c = CHR ''%'' \<and> d = CHR ''s''
      then (case args of
              [] \<Rightarrow> ''%!s(MISSING)'' @ Sprintf rest []
            | a # others \<Rightarrow> a @ Sprintf rest others)
      else c # Sprintf (d # rest) args)"

definition generateEventTopic :: "string \<Rightarrow> string" where
  "generateEventTopic eventName = Sprintf ''events.%s'' [eventName]"

definition generateCommandTopic :: "string \<Rightarrow> string" where
  "generateCommandTopic commandName = Sprintf ''commands.%s'' [commandName]"

section \<open>Package eventrouter: handlers (interfaces.go)\<close>

text \<open>
  \<^verbatim>\<open>MessageHandler.Handle(ctx, msg) error\<close>. The message is passed by pointer, so a
  handler may change it in place: the second component of the result is the message as
  the handler leaves it. \<^verbatim>\<open>MessageHandlerFunc.Handle\<close> calls the function it wraps.
\<close>

type_synonym MessageHandler = "Ctx \<Rightarrow> Message \<Rightarrow> err option \<times> Message"

definition Handle :: "MessageHandler \<Rightarrow> Ctx \<Rightarrow> Message \<Rightarrow> err option \<times> Message" where
  "Handle f ctx msg = f ctx msg"

text \<open>
  The two closures named \<^verbatim>\<open>handlerFunc\<close> in router.go. The one of \<^verbatim>\<open>AddHandler\<close> returns the
  produced messages and the error; Go's \<^verbatim>\<open>nil\<close> slice is the empty list. The slice it returns
  on success holds the pointer it received, that is the message with the handler's changes.
\<close>

type_synonym HandlerFunc = "Message \<Rightarrow> Message list \<times> err option"

type_synonym NoPublishHandlerFunc = "Message \<Rightarrow> err option"

definition AddHandler_handlerFunc :: "MessageHandler \<Rightarrow> HandlerFunc" where
  "AddHandler_handlerFunc handler msg =
     (case Handle handler (Context msg) msg of
        (Some e, _) \<Rightarrow> ([], Some e)
      | (None, msg') \<Rightarrow> ([msg'], None))"

definition AddNoPublisherHandler_handlerFunc :: "MessageHandler \<Rightarrow> NoPublishHandlerFunc" where
  "AddNoPublisherHandler_handlerFunc handler msg = fst (Handle handler (Context msg) msg)"

section \<open>Package eventrouter: the router wrapper (router.go)\<close>

text \<open>
  \<^verbatim>\<open>messageRouter\<close> wraps a \<^verbatim>\<open>*message.Router\<close> of the transport library, which is not part
  of the repository. The wrapper is therefore modelled over an arbitrary router: \<open>'s\<close> is
  the wrapped router's state and a \<open>RouterOps\<close> record holds the methods the wrapper
  calls on it, with the argument order of the calls in router.go. Subscribers, publishers,
  middleware and plugins are values the wrapper only passes on (\<open>'sub\<close>, \<open>'pub\<close>, \<open>'mw\<close>,
  \<open>'pl\<close>).
\<close>

record ('s, 'sub, 'pub, 'mw, 'pl) RouterOps =
  message_NewRouter :: "nat \<Rightarrow> err + 's"
  Router_IsRunning :: "'s \<Rightarrow> bool"
  Router_AddHandler :: "string \<Rightarrow> string \<Rightarrow> 'sub \<Rightarrow> string \<Rightarrow> 'pub \<Rightarrow> HandlerFunc \<Rightarrow> 's \<Rightarrow> 's"
  Router_AddNoPublisherHandler :: "string \<Rightarrow> string \<Rightarrow> 'sub \<Rightarrow> NoPublishHandlerFunc \<Rightarrow> 's \<Rightarrow> 's"
  Router_AddPlugin :: "'pl \<Rightarrow> 's \<Rightarrow> 's"
  Router_AddMiddleware :: "'mw \<Rightarrow> 's \<Rightarrow> 's"
  Router_Run :: "Ctx \<Rightarrow> 's \<Rightarrow> err option \<times> 's"
  Router_Close :: "'s \<Rightarrow> err option \<times> 's"

text \<open>
  \<^verbatim>\<open>Config\<close> and \<^verbatim>\<open>messageRouter\<close>. The \<^verbatim>\<open>*slog.Logger\<close> is a sink: the field \<open>logger\<close> holds
  the records written to it so far (\<^verbatim>\<open>Config.Logger\<close> only chooses the sink, so it has no
  field here). Durations are natural numbers.
\<close>

record Config =
  CloseTimeout :: "nat option"

record 's messageRouter =
  router :: 's
  logger :: "LogRecord list"
  config :: Config

definition slog_Info :: "string \<Rightarrow> LogRecord list \<Rightarrow> LogRecord list" where
  "slog_Info text sink = sink @ [(LevelInfo, None, text, [])]"

definition slog_Debug :: "string \<Rightarrow> (string \<times> Attr) list \<Rightarrow> LogRecord list \<Rightarrow> LogRecord list" where
  "slog_Debug text attrs sink = sink @ [(LevelDebug, None, text, attrs)]"

definition NewRouter ::
  "('s, 'sub, 'pub, 'mw, 'pl) RouterOps \<Rightarrow> Config \<Rightarrow> err + 's messageRouter" where
  "NewRouter W cfg =
     (let routerConfig = (case CloseTimeout cfg of None \<Rightarrow> 0 | Some d \<Rightarrow> d) in
      case message_NewRouter W routerConfig of
        Inl e \<Rightarrow> Inl (syserr_WrapAsIs e ''failed to create watermill router'' [])
      | Inr s \<Rightarrow> Inr \<lparr>router = s, logger = [], config = cfg\<rparr>)"

definition AddHandler ::
  "('s, 'sub, 'pub, 'mw, 'pl) RouterOps \<Rightarrow> string \<Rightarrow> string \<Rightarrow> string \<Rightarrow> 'sub \<Rightarrow> 'pub
     \<Rightarrow> MessageHandler \<Rightarrow> 's messageRouter \<Rightarrow> err option \<times> 's messageRouter" where
  "AddHandler W handlerName subscribeTopic publishTopic subscriber publisher handler r =
     (if Router_IsRunning W (router r)
      then (Some (syserr_New InvalidArgumentCode ''cannot add handler to running router''), r)
      else (None,
            r\<lparr>router := Router_AddHandler W handlerName subscribeTopic subscriber publishTopic
                          publisher (AddHandler_handlerFunc handler) (router r)\<rparr>))"

definition AddNoPublisherHandler ::
  "('s, 'sub, 'pub, 'mw, 'pl) RouterOps \<Rightarrow> string \<Rightarrow> string \<Rightarrow> 'sub
     \<Rightarrow> MessageHandler \<Rightarrow> 's messageRouter \<Rightarrow> err option \<times> 's messageRouter" where
  "AddNoPublisherHandler W handlerName subscribeTopic subscriber handler r =
     (if Router_IsRunning W (router r)
      then (Some (syserr_New InvalidArgumentCode ''cannot add handler to running router''), r)
      else (None,
            r\<lparr>router := Router_AddNoPublisherHandler W handlerName subscribeTopic subscriber
                          (AddNoPublisherHandler_handlerFunc handler) (router r)\<rparr>))"

text \<open>\<^verbatim>\<open>AddPlugin\<close> and \<^verbatim>\<open>AddMiddleware\<close> return nothing: the result is the router alone.\<close>

definition AddPlugin ::
  "('s, 'sub, 'pub, 'mw, 'pl) RouterOps \<Rightarrow> 'pl \<Rightarrow> 's messageRouter \<Rightarrow> 's messageRouter" where
  "AddPlugin W plugin r = r\<lparr>router := Router_AddPlugin W plugin (router r)\<rparr>"

definition AddMiddleware ::
  "('s, 'sub, 'pub, 'mw, 'pl) RouterOps \<Rightarrow> 'mw \<Rightarrow> 's messageRouter \<Rightarrow> 's messageRouter" where
  "AddMiddleware W middleware r = r\<lparr>router := Router_AddMiddleware W middleware (router r)\<rparr>"

definition Run ::
  "('s, 'sub, 'pub, 'mw, 'pl) RouterOps \<Rightarrow> Ctx \<Rightarrow> 's messageRouter
     \<Rightarrow> err option \<times> 's messageRouter" where
  "Run W ctx r =
     (let r1 = r\<lparr>logger := slog_Info ''Starting message router'' (logger r)\<rparr>;
          (e, s) = Router_Run W ctx (router r1);
          r2 = r1\<lparr>router := s\<rparr>
      in case e of
           Some x \<Rightarrow> (Some (syserr_WrapAsIs x ''router run failed'' []), r2)
         | None \<Rightarrow> (None, r2\<lparr>logger := slog_Info ''Message router stopped'' (logger r2)\<rparr>))"

definition Running :: "('s, 'sub, 'pub, 'mw, 'pl) RouterOps \<Rightarrow> 's messageRouter \<Rightarrow> bool" where
  "Running W r = Router_IsRunning W (router r)"

definition Close ::
  "('s, 'sub, 'pub, 'mw, 'pl) RouterOps \<Rightarrow> 's messageRouter \<Rightarrow> err option \<times> 's messageRouter" where
  "Close W r =
     (let r1 = r\<lparr>logger := slog_Info ''Closing message router'' (logger r)\<rparr>;
          (e, s) = Router_Close W (router r1);
          r2 = r1\<lparr>router := s\<rparr>
      in case e of
           Some x \<Rightarrow> (Some (syserr_WrapAsIs x ''failed to close router'' []), r2)
         | None \<Rightarrow> (None, r2\<lparr>logger := slog_Info ''Message router closed'' (logger r2)\<rparr>))"

text \<open>
  The four registration methods of the \<^verbatim>\<open>Router\<close> interface as one call, with what its
  caller observes: the returned error and the router afterwards. \<^verbatim>\<open>AddPlugin\<close> and
  \<^verbatim>\<open>AddMiddleware\<close> are declared without a result, so no error of theirs ever reaches the
  caller.
\<close>

datatype ('sub, 'pub, 'mw, 'pl) RegistrationCall =
    CallAddHandler string string string 'sub 'pub MessageHandler
  | CallAddNoPublisherHandler string string 'sub MessageHandler
  | CallAddPlugin 'pl
  | CallAddMiddleware 'mw

fun register ::
  "('s, 'sub, 'pub, 'mw, 'pl) RouterOps \<Rightarrow> ('sub, 'pub, 'mw, 'pl) RegistrationCall
     \<Rightarrow> 's messageRouter \<Rightarrow> err option \<times> 's messageRouter" where
  "register W (CallAddHandler handlerName subscribeTopic publishTopic sub pub handler) r =
     AddHandler W handlerName subscribeTopic publishTopic sub pub handler r"
| "register W (CallAddNoPublisherHandler handlerName subscribeTopic sub handler) r =
     AddNoPublisherHandler W handlerName subscribeTopic sub handler r"
| "register W (CallAddPlugin q) r = (None, AddPlugin W q r)"
| "register W (CallAddMiddleware m) r = (None, AddMiddleware W m r)"

section \<open>Package eventrouter: the publisher wrapper (router.go)\<close>

text \<open>
  \<^verbatim>\<open>messagePublisher\<close> wraps a \<^verbatim>\<open>message.Publisher\<close>: \<open>'p\<close> is the state of the wrapped
  transport and the first argument of \<open>Publish\<close> is its \<^verbatim>\<open>Publish(topic, msg)\<close> method.
\<close>

record 'p messagePublisher =
  publisher :: 'p
  publisher_logger :: "LogRecord list"

definition Publish ::
  "(string \<Rightarrow> Message \<Rightarrow> 'p \<Rightarrow> err option \<times> 'p) \<Rightarrow> Ctx \<Rightarrow> string \<Rightarrow> Message
     \<Rightarrow> 'p messagePublisher \<Rightarrow> err option \<times> 'p messagePublisher" where
  "Publish transport_Publish ctx topic msg p =
     (let p1 = p\<lparr>publisher_logger :=
                  slog_Debug ''Publishing message''
                    [(''topic'', AStr topic), (''message_id'', AStr (UUID msg))]
                    (publisher_logger p)\<rparr>;
          (e, t) = transport_Publish topic msg (publisher p1);
          p2 = p1\<lparr>publisher := t\<rparr>
      in case e of
           Some x \<Rightarrow>
             (Some (syserr_WrapAsIs x ''failed to publish message''
                      [(''topic'', topic), (''message_id'', UUID msg)]), p2)
         | None \<Rightarrow> (None, p2))"

section \<open>The wrapped router, modelled from the specification\<close>

text \<open>
  Modelled from the spec: the router that \<^verbatim>\<open>messageRouter\<close> and \<^verbatim>\<open>cqrsBus\<close> wrap
  (\<^verbatim>\<open>message.Router\<close>) is not under src/. Its state is the \<open>RouterState\<close> of section 3
  (registrations, ordered middleware, the plugin list, and the lifecycle state of section
  4.6 in place of the flag \<open>running\<close>); a \<open>HandlerRegistration\<close> is the record
  \<open>{logical_name, topic, kind, handler_reference}\<close> of section 3. The registrations,
  the middleware chain and the plugin list are append-only and frozen once the router
  runs (sections 3, 4.2, 4.5 and 7): an addition made while running leaves the state as
  it is. Each operation returns the state alone, as router.go calls it: the wrapper keeps
  nothing of what the three calls return.
\<close>

datatype Kind = Command | Event | Relay

datatype Phase = PCreated | PConfigured | PRunning | PClosed

record 'h HandlerRegistration =
  logical_name :: string
  reg_topic :: string
  reg_kind :: Kind
  handler_reference :: 'h

record ('h, 'mw, 'pl) RouterState =
  registrations :: "'h HandlerRegistration list"
  middleware :: "'mw list"
  plugins :: "'pl list"
  phase :: Phase
  closeTimeout :: nat
  drain_overrun :: bool

text \<open>
  \<open>drain_overrun\<close> says whether the in-flight handler invocations outlast the close
  timeout (section 4.6); it belongs to the environment and no operation sets it.
\<close>

definition spec_NewRouter :: "nat \<Rightarrow> err + ('h, 'mw, 'pl) RouterState" where
  "spec_NewRouter t =
     Inr \<lparr>registrations = [], middleware = [], plugins = [], phase = PCreated,
          closeTimeout = t, drain_overrun = False\<rparr>"

text \<open>Section 4.6, Created to Configured: any successful registration call.\<close>

definition configured :: "('h, 'mw, 'pl) RouterState \<Rightarrow> ('h, 'mw, 'pl) RouterState" where
  "configured s = (if phase s = PCreated then s\<lparr>phase := PConfigured\<rparr> else s)"

definition spec_register ::
  "'h HandlerRegistration \<Rightarrow> ('h, 'mw, 'pl) RouterState \<Rightarrow> ('h, 'mw, 'pl) RouterState" where
  "spec_register reg s =
     (if phase s = PRunning then s
      else configured (s\<lparr>registrations := registrations s @ [reg]\<rparr>))"

definition spec_AddMiddleware ::
  "'mw \<Rightarrow> ('h, 'mw, 'pl) RouterState \<Rightarrow> ('h, 'mw, 'pl) RouterState" where
  "spec_AddMiddleware m s =
     (if phase s = PRunning then s
      else configured (s\<lparr>middleware := middleware s @ [m]\<rparr>))"

definition spec_AddPlugin ::
  "'pl \<Rightarrow> ('h, 'mw, 'pl) RouterState \<Rightarrow> ('h, 'mw, 'pl) RouterState" where
  "spec_AddPlugin q s =
     (if phase s = PRunning then s
      else configured (s\<lparr>plugins := plugins s @ [q]\<rparr>))"

definition spec_IsRunning :: "('h, 'mw, 'pl) RouterState \<Rightarrow> bool" where
  "spec_IsRunning s = (phase s = PRunning)"

text \<open>
  Section 4.6. \<open>Run\<close> is a blocking call: \<open>spec_Run_begin\<close> is the transition Configured
  to Running, whose result is the state other callers see while \<open>Run\<close> blocks; \<open>spec_Run\<close>
  is the whole call, which returns only once the router is closed. \<open>Run\<close> on a running
  or closed instance is rejected outright (section 7). Transport faults while the loops
  start are outside this model. \<open>Close\<close> before \<open>Run\<close> is a no-op; from Running it
  releases the resources and reports an exceeded timeout.
\<close>

definition spec_Run_begin :: "('h, 'mw, 'pl) RouterState \<Rightarrow> ('h, 'mw, 'pl) RouterState" where
  "spec_Run_begin s = s\<lparr>phase := PRunning\<rparr>"

definition spec_Run ::
  "Ctx \<Rightarrow> ('h, 'mw, 'pl) RouterState \<Rightarrow> err option \<times> ('h, 'mw, 'pl) RouterState" where
  "spec_Run ctx s =
     (case phase s of
        PRunning \<Rightarrow> (Some AlreadyRunningError, s)
      | PClosed \<Rightarrow> (Some TerminalStateError, s)
      | _ \<Rightarrow> (None, (spec_Run_begin s)\<lparr>phase := PClosed\<rparr>))"

definition spec_Close ::
  "('h, 'mw, 'pl) RouterState \<Rightarrow> err option \<times> ('h, 'mw, 'pl) RouterState" where
  "spec_Close s =
     (case phase s of
        PRunning \<Rightarrow>
          (if drain_overrun s then Some CloseTimeoutError else None, s\<lparr>phase := PClosed\<rparr>)
      | _ \<Rightarrow> (None, s))"

text \<open>
  A relay registration binds the subscriber and the handler function, and in transform
  mode the publish topic and the publisher (section 4.2, AddRelayHandler).
\<close>

datatype ('sub, 'pub) RelayBinding =
    Transform 'sub string 'pub HandlerFunc
  | ConsumerOnly 'sub NoPublishHandlerFunc

definition relay_ops ::
  "((('sub, 'pub) RelayBinding, 'mw, 'pl) RouterState, 'sub, 'pub, 'mw, 'pl) RouterOps" where
  "relay_ops =
     \<lparr>message_NewRouter = spec_NewRouter,
      Router_IsRunning = spec_IsRunning,
      Router_AddHandler = (\<lambda>name subscribeTopic sub publishTopic pub f.
         spec_register \<lparr>logical_name = name, reg_topic = subscribeTopic, reg_kind = Relay,
                        handler_reference = Transform sub publishTopic pub f\<rparr>),
      Router_AddNoPublisherHandler = (\<lambda>name subscribeTopic sub f.
         spec_register \<lparr>logical_name = name, reg_topic = subscribeTopic, reg_kind = Relay,
                        handler_reference = ConsumerOnly sub f\<rparr>),
      Router_AddPlugin = spec_AddPlugin,
      Router_AddMiddleware = spec_AddMiddleware,
      Router_Run = spec_Run,
      Router_Close = spec_Close\<rparr>"

section \<open>Package messaging: the CQRS bus\<close>

text \<open>
  The closures of \<^verbatim>\<open>NewBus\<close> read the wall clock and write to the process-wide logger, and
  the bus publishes through the configured transport. These effects are threaded through
  a \<open>World\<close>: the clock, the log written so far, and the state \<open>'p\<close> of the transport.
  A handler may do anything to the world, the clock included.

  Modelled from the spec: package \<^verbatim>\<open>logger\<close> of the repository is not under src/;
  \<^verbatim>\<open>logger.Info(ctx, text, fields...)\<close> is an instrumentation-only output (section 6) and
  appends one record.
\<close>

record 'p World =
  clock :: nat
  logs :: "LogRecord list"
  transport :: 'p

definition time_Now :: "'p World \<Rightarrow> nat" where
  "time_Now w = clock w"

definition time_Since :: "nat \<Rightarrow> 'p World \<Rightarrow> nat" where
  "time_Since start w = clock w - start"

definition logger_Info :: "Ctx \<Rightarrow> string \<Rightarrow> (string \<times> Attr) list \<Rightarrow> 'p World \<Rightarrow> 'p World" where
  "logger_Info ctx text attrs w = w\<lparr>logs := logs w @ [(LevelInfo, Some ctx, text, attrs)]\<rparr>"

text \<open>
  \<^verbatim>\<open>CommandHandler\<close> and \<^verbatim>\<open>EventHandler\<close> are functions of a context and a command or event
  (\<open>'v\<close> is Go's \<^verbatim>\<open>any\<close>). \<^verbatim>\<open>cqrs.NewCommandHandler(name, f)\<close> pairs the function with the
  name it is registered under; \<open>Handler_Handle\<close> is the \<^verbatim>\<open>Handle\<close> method of the pair.
\<close>

type_synonym ('v, 'p) CommandHandler = "Ctx \<Rightarrow> 'v \<Rightarrow> 'p World \<Rightarrow> err option \<times> 'p World"

type_synonym ('v, 'p) EventHandler = "Ctx \<Rightarrow> 'v \<Rightarrow> 'p World \<Rightarrow> err option \<times> 'p World"

record ('v, 'p) cqrsHandler =
  HandlerName :: string
  HandleFn :: "Ctx \<Rightarrow> 'v \<Rightarrow> 'p World \<Rightarrow> err option \<times> 'p World"

definition cqrs_NewCommandHandler ::
  "string \<Rightarrow> ('v, 'p) CommandHandler \<Rightarrow> ('v, 'p) cqrsHandler" where
  "cqrs_NewCommandHandler handlerName f = \<lparr>HandlerName = handlerName, HandleFn = f\<rparr>"

definition cqrs_NewEventHandler ::
  "string \<Rightarrow> ('v, 'p) EventHandler \<Rightarrow> ('v, 'p) cqrsHandler" where
  "cqrs_NewEventHandler handlerName f = \<lparr>HandlerName = handlerName, HandleFn = f\<rparr>"

definition Handler_Handle ::
  "('v, 'p) cqrsHandler \<Rightarrow> Ctx \<Rightarrow> 'v \<Rightarrow> 'p World \<Rightarrow> err option \<times> 'p World" where
  "Handler_Handle h ctx v w = HandleFn h ctx v w"

subsection \<open>The closures that NewBus configures\<close>

text \<open>
  Each closure takes the fields of its \<^verbatim>\<open>params\<close> struct as arguments. A hook that receives
  the message receives a pointer: \<open>OnSend\<close> and \<open>OnPublish\<close> return the message as they
  leave it. \<open>time_String\<close> is \<^verbatim>\<open>time.Time.String\<close>, whose format is left open.
\<close>

definition CommandBus_GeneratePublishTopic :: "string \<Rightarrow> string \<times> err option" where
  "CommandBus_GeneratePublishTopic commandName = (generateCommandTopic commandName, None)"

definition CommandBus_OnSend ::
  "(nat \<Rightarrow> string) \<Rightarrow> string \<Rightarrow> 'v \<Rightarrow> Message \<Rightarrow> 'p World
     \<Rightarrow> err option \<times> Message \<times> 'p World" where
  "CommandBus_OnSend time_String commandName cmd msg w =
     (let w1 = logger_Info (Context msg) ''Sending command''
                 [(''command_name'', AStr commandName)] w;
          msg1 = Metadata_Set ''sent_at'' (time_String (time_Now w1)) msg
      in (None, msg1, w1))"

definition EventBus_GeneratePublishTopic :: "string \<Rightarrow> string \<times> err option" where
  "EventBus_GeneratePublishTopic eventName = (generateEventTopic eventName, None)"

definition EventBus_OnPublish ::
  "(nat \<Rightarrow> string) \<Rightarrow> string \<Rightarrow> 'v \<Rightarrow> Message \<Rightarrow> 'p World
     \<Rightarrow> err option \<times> Message \<times> 'p World" where
  "EventBus_OnPublish time_String eventName evt msg w =
     (let w1 = logger_Info (Context msg) ''Publishing event''
                 [(''event_name'', AStr eventName)] w;
          msg1 = Metadata_Set ''published_at'' (time_String (time_Now w1)) msg
      in (None, msg1, w1))"

definition CommandProcessor_GenerateSubscribeTopic :: "string \<Rightarrow> string \<times> err option" where
  "CommandProcessor_GenerateSubscribeTopic commandName = (generateCommandTopic commandName, None)"

definition CommandProcessor_OnHandle ::
  "('v, 'p) cqrsHandler \<Rightarrow> string \<Rightarrow> 'v \<Rightarrow> Message \<Rightarrow> 'p World \<Rightarrow> err option \<times> 'p World" where
  "CommandProcessor_OnHandle handler commandName cmd msg w =
     (let start = time_Now w;
          (e, w1) = Handler_Handle handler (Context msg) cmd w;
          w2 = logger_Info (Context msg) ''Command handled''
                 [(''command_name'', AStr commandName),
                  (''duration'', ADur (time_Since start w1)),
                  (''err'', AErr e)] w1
      in (e, w2))"

definition EventProcessor_GenerateSubscribeTopic :: "string \<Rightarrow> string \<times> err option" where
  "EventProcessor_GenerateSubscribeTopic eventName = (generateEventTopic eventName, None)"

definition EventProcessor_OnHandle ::
  "('v, 'p) cqrsHandler \<Rightarrow> string \<Rightarrow> 'v \<Rightarrow> Message \<Rightarrow> 'p World \<Rightarrow> err option \<times> 'p World" where
  "EventProcessor_OnHandle handler eventName evt msg w =
     (let start = time_Now w;
          (e, w1) = Handler_Handle handler (Context msg) evt w;
          w2 = logger_Info (Context msg) ''Event handled''
                 [(''event_name'', AStr eventName),
                  (''duration'', ADur (time_Since start w1)),
                  (''err'', AErr e)] w1
      in (e, w2))"

subsection \<open>The bus\<close>

text \<open>
  The configuration structs of the library, with the fields \<^verbatim>\<open>NewBus\<close> sets. The command
  bus and the event bus have configurations of one shape (the hook is \<^verbatim>\<open>OnSend\<close> for
  commands and \<^verbatim>\<open>OnPublish\<close> for events), and so have the two processors; each shape is one
  record here. The marshaler (\<^verbatim>\<open>cqrs.JSONMarshaler\<close>) is a parameter: \<open>Name\<close> gives the
  logical name of a value, \<open>Marshal\<close> serializes it into a fresh envelope or fails. The
  subscriber constructor returns the configured subscriber and is left out.
\<close>

record 'v CommandEventMarshaler =
  Name :: "'v \<Rightarrow> string"
  Marshal :: "'v \<Rightarrow> err + Message"

record ('v, 'p) BusConfig =
  GeneratePublishTopic :: "string \<Rightarrow> string \<times> err option"
  Marshaler :: "'v CommandEventMarshaler"
  OnSend :: "(string \<Rightarrow> 'v \<Rightarrow> Message \<Rightarrow> 'p World \<Rightarrow> err option \<times> Message \<times> 'p World) option"

record ('v, 'p) ProcessorConfig =
  GenerateSubscribeTopic :: "string \<Rightarrow> string \<times> err option"
  OnHandle :: "(('v, 'p) cqrsHandler \<Rightarrow> string \<Rightarrow> 'v \<Rightarrow> Message \<Rightarrow> 'p World
                 \<Rightarrow> err option \<times> 'p World) option"

record ('v, 'p) MessageBus =
  bus_publisher :: "string \<Rightarrow> Message \<Rightarrow> 'p \<Rightarrow> err option \<times> 'p"
  bus_config :: "('v, 'p) BusConfig"

record 'p messaging_Config =
  Publisher :: "string \<Rightarrow> Message \<Rightarrow> 'p \<Rightarrow> err option \<times> 'p"

record ('v, 'p) cqrsBus =
  commandBus :: "('v, 'p) MessageBus"
  eventBus :: "('v, 'p) MessageBus"
  commandProcessor :: "('v, 'p) ProcessorConfig"
  eventProcessor :: "('v, 'p) ProcessorConfig"
  bus_router :: "(('v, 'p) cqrsHandler, unit, unit) RouterState"
  marshaler :: "'v CommandEventMarshaler"

text \<open>
  \<^verbatim>\<open>NewBus\<close>. Its router is the modelled one; the four constructors of the library only
  store the configuration they are given.
\<close>

definition NewBus ::
  "(nat \<Rightarrow> string) \<Rightarrow> 'v CommandEventMarshaler \<Rightarrow> 'p messaging_Config \<Rightarrow> err + ('v, 'p) cqrsBus" where
  "NewBus time_String jsonMarshaler cfg =
     (case spec_NewRouter 0 of
        Inl e \<Rightarrow> Inl e
      | Inr rt \<Rightarrow>
          Inr \<lparr>commandBus =
                 \<lparr>bus_publisher = Publisher cfg,
                  bus_config = \<lparr>GeneratePublishTopic = CommandBus_GeneratePublishTopic,
                                Marshaler = jsonMarshaler,
                                OnSend = Some (CommandBus_OnSend time_String)\<rparr>\<rparr>,
               eventBus =
                 \<lparr>bus_publisher = Publisher cfg,
                  bus_config = \<lparr>GeneratePublishTopic = EventBus_GeneratePublishTopic,
                                Marshaler = jsonMarshaler,
                                OnSend = Some (EventBus_OnPublish time_String)\<rparr>\<rparr>,
               commandProcessor =
                 \<lparr>GenerateSubscribeTopic = CommandProcessor_GenerateSubscribeTopic,
                  OnHandle = Some CommandProcessor_OnHandle\<rparr>,
               eventProcessor =
                 \<lparr>GenerateSubscribeTopic = EventProcessor_GenerateSubscribeTopic,
                  OnHandle = Some EventProcessor_OnHandle\<rparr>,
               bus_router = rt,
               marshaler = jsonMarshaler\<rparr>)"

text \<open>
  Modelled from the spec: \<^verbatim>\<open>cqrs.CommandBus.Send\<close> and \<^verbatim>\<open>cqrs.EventBus.Publish\<close> are not
  under src/. Sections 4.3 and 4.4: the value is serialized into an envelope payload, the
  optional pre-send hook is invoked on the envelope, and the envelope is published to the
  topic the naming strategy gives for the logical name; an encoding error, a hook error
  and a transport error are returned to the caller (section 7). The envelope carries the
  caller's context.
\<close>

definition cqrs_Send :: "('v, 'p) MessageBus \<Rightarrow> Ctx \<Rightarrow> 'v \<Rightarrow> 'p World \<Rightarrow> err option \<times> 'p World" where
  "cqrs_Send bus ctx v w =
     (let logicalName = Name (Marshaler (bus_config bus)) v in
      case Marshal (Marshaler (bus_config bus)) v of
        Inl e \<Rightarrow> (Some e, w)
      | Inr msg0 \<Rightarrow>
          (let msg1 = msg0\<lparr>Context := ctx\<rparr>;
               (e1, msg2, w1) =
                 (case OnSend (bus_config bus) of
                    None \<Rightarrow> (None, msg1, w)
                  | Some hook \<Rightarrow> hook logicalName v msg1 w)
           in case e1 of
                Some e \<Rightarrow> (Some e, w1)
              | None \<Rightarrow>
                  (case GeneratePublishTopic (bus_config bus) logicalName of
                     (_, Some e) \<Rightarrow> (Some e, w1)
                   | (topicName, None) \<Rightarrow>
                       (let (e2, t) = bus_publisher bus topicName msg2 (transport w1)
                        in (e2, w1\<lparr>transport := t\<rparr>)))))"

text \<open>
  Modelled from the spec: \<^verbatim>\<open>cqrs.CommandProcessor.AddHandler\<close> and
  \<^verbatim>\<open>cqrs.EventProcessor.AddHandler\<close> are not under src/. Section 4.2: registering a command
  handler fails with a duplicate-registration error if the name already has a command
  handler, or with a router-running error once \<open>Run\<close> has started; on success it creates
  one registration of its kind, bound to the topic of the name. Event handlers have the
  same running-state guard, and duplicate names accumulate.
\<close>

definition has_command_handler :: "('h, 'mw, 'pl) RouterState \<Rightarrow> string \<Rightarrow> bool" where
  "has_command_handler rs n =
     list_ex (\<lambda>g. reg_kind g = Command \<and> logical_name g = n) (registrations rs)"

definition command_handler_of :: "('h, 'mw, 'pl) RouterState \<Rightarrow> string \<Rightarrow> 'h option" where
  "command_handler_of rs n =
     map_option handler_reference
       (find (\<lambda>g. reg_kind g = Command \<and> logical_name g = n) (registrations rs))"

definition cqrs_AddHandler ::
  "Kind \<Rightarrow> ('v, 'p) ProcessorConfig \<Rightarrow> ('v, 'p) cqrsHandler
     \<Rightarrow> (('v, 'p) cqrsHandler, 'mw, 'pl) RouterState
     \<Rightarrow> err option \<times> (('v, 'p) cqrsHandler, 'mw, 'pl) RouterState" where
  "cqrs_AddHandler k cfg h rs =
     (if k = Command \<and> has_command_handler rs (HandlerName h)
      then (Some (DuplicateRegistration (HandlerName h)), rs)
      else if spec_IsRunning rs then (Some RouterRunningError, rs)
      else (case GenerateSubscribeTopic cfg (HandlerName h) of
              (_, Some e) \<Rightarrow> (Some e, rs)
            | (t, None) \<Rightarrow>
                (None, spec_register \<lparr>logical_name = HandlerName h, reg_topic = t,
                                       reg_kind = k, handler_reference = h\<rparr> rs)))"

text \<open>The methods of \<^verbatim>\<open>cqrsBus\<close>: each forwards to the library and returns its error.\<close>

text \<open>The same bus with its pre-send hook left unset (the hook is optional, section 4.3).\<close>

definition without_hook :: "('v, 'p) MessageBus \<Rightarrow> ('v, 'p) MessageBus" where
  "without_hook bus = bus\<lparr>bus_config := (bus_config bus)\<lparr>OnSend := None\<rparr>\<rparr>"

definition PublishCommand ::
  "('v, 'p) cqrsBus \<Rightarrow> Ctx \<Rightarrow> 'v \<Rightarrow> 'p World \<Rightarrow> err option \<times> 'p World" where
  "PublishCommand b ctx cmd w = cqrs_Send (commandBus b) ctx cmd w"

definition PublishEvent ::
  "('v, 'p) cqrsBus \<Rightarrow> Ctx \<Rightarrow> 'v \<Rightarrow> 'p World \<Rightarrow> err option \<times> 'p World" where
  "PublishEvent b ctx evt w = cqrs_Send (eventBus b) ctx evt w"

definition RegisterCommandHandler ::
  "string \<Rightarrow> ('v, 'p) CommandHandler \<Rightarrow> ('v, 'p) cqrsBus \<Rightarrow> err option \<times> ('v, 'p) cqrsBus" where
  "RegisterCommandHandler commandName handler b =
     (let (e, rs) = cqrs_AddHandler Command (commandProcessor b)
                      (cqrs_NewCommandHandler commandName handler) (bus_router b)
      in case e of
           Some x \<Rightarrow> (Some x, b\<lparr>bus_router := rs\<rparr>)
         | None \<Rightarrow> (None, b\<lparr>bus_router := rs\<rparr>))"

definition RegisterEventHandler ::
  "string \<Rightarrow> ('v, 'p) EventHandler \<Rightarrow> ('v, 'p) cqrsBus \<Rightarrow> err option \<times> ('v, 'p) cqrsBus" where
  "RegisterEventHandler eventName handler b =
     (let (e, rs) = cqrs_AddHandler Event (eventProcessor b)
                      (cqrs_NewEventHandler eventName handler) (bus_router b)
      in case e of
           Some x \<Rightarrow> (Some x, b\<lparr>bus_router := rs\<rparr>)
         | None \<Rightarrow> (None, b\<lparr>bus_router := rs\<rparr>))"

section \<open>Concrete inputs\<close>

text \<open>
  Two handlers in the style of the example program (\<^verbatim>\<open>processOrder\<close>): one rewrites the
  payload and sets a metadata entry, one fails on its input. \<open>example_router\<close> is what
  \<open>NewRouter\<close> returns over the modelled router; \<open>running_router\<close> is that router as
  seen while \<open>Run\<close> blocks.
\<close>

definition stamp_handler :: MessageHandler where
  "stamp_handler ctx msg =
     (None, Metadata_Set ''status'' ''processed'' (msg\<lparr>Payload := ''processed''\<rparr>))"

definition reject_handler :: MessageHandler where
  "reject_handler ctx msg = (Some (Foreign ''failed to unmarshal order''), msg)"

definition order_msg :: Message where
  "order_msg =
     \<lparr>UUID = ''m-1'', Metadata = Map.empty, Payload = ''order-001'', Context = Background\<rparr>"

definition example_router ::
  "((string, string) RelayBinding, string, string) RouterState messageRouter" where
  "example_router =
     \<lparr>router = \<lparr>registrations = [], middleware = [], plugins = [], phase = PCreated,
                closeTimeout = 0, drain_overrun = False\<rparr>,
      logger = [], config = \<lparr>CloseTimeout = None\<rparr>\<rparr>"

definition running_router ::
  "((string, string) RelayBinding, string, string) RouterState messageRouter" where
  "running_router = example_router\<lparr>router := spec_Run_begin (router example_router)\<rparr>"

text \<open>
  \<open>configured_router\<close> holds one relay registration named \<open>order_processor\<close>;
  \<open>closed_router\<close> is the running router after \<open>Close\<close>.
\<close>

definition configured_router ::
  "((string, string) RelayBinding, string, string) RouterState messageRouter" where
  "configured_router =
     snd (AddHandler relay_ops ''order_processor'' ''orders.created'' ''orders.processed''
            ''sub'' ''pub'' stamp_handler example_router)"

definition closed_router ::
  "((string, string) RelayBinding, string, string) RouterState messageRouter" where
  "closed_router = snd (Close relay_ops running_router)"

text \<open>
  For the bus: a transport that appends what is published to an outbox, a marshaler over
  commands given as a name and a body, a clock rendering, a world at time 3, a handler
  that succeeds and one that fails. \<open>example_bus\<close> is what \<open>NewBus\<close> returns for them, and
  \<open>registered_bus\<close> is that bus after a first handler was registered for \<open>CreateOrder\<close>.
\<close>

definition outbox_publisher ::
  "string \<Rightarrow> Message \<Rightarrow> (string \<times> Message) list \<Rightarrow> err option \<times> (string \<times> Message) list" where
  "outbox_publisher topicName msg box = (None, box @ [(topicName, msg)])"

definition example_marshaler :: "(string \<times> string) CommandEventMarshaler" where
  "example_marshaler =
     \<lparr>Name = fst,
      Marshal = (\<lambda>v. Inr \<lparr>UUID = ''u-1'', Metadata = [''name'' \<mapsto> fst v], Payload = snd v,
                          Context = Background\<rparr>)\<rparr>"

definition tally :: "nat \<Rightarrow> string" where
  "tally t = replicate t (CHR ''|'')"

definition world0 :: "(string \<times> Message) list World" where
  "world0 = \<lparr>clock = 3, logs = [], transport = []\<rparr>"

definition audit_handler :: "(string \<times> string, (string \<times> Message) list) CommandHandler" where
  "audit_handler ctx v w = (None, w\<lparr>clock := clock w + 2\<rparr>)"

definition failing_handler :: "(string \<times> string, (string \<times> Message) list) CommandHandler" where
  "failing_handler ctx v w = (Some (Foreign ''email failed''), w\<lparr>clock := clock w + 1\<rparr>)"

definition example_bus :: "(string \<times> string, (string \<times> Message) list) cqrsBus" where
  "example_bus =
     (case NewBus tally example_marshaler \<lparr>Publisher = outbox_publisher\<rparr> of
        Inr b \<Rightarrow> b)"

definition registered_bus :: "(string \<times> string, (string \<times> Message) list) cqrsBus" where
  "registered_bus = snd (RegisterCommandHandler ''CreateOrder'' audit_handler example_bus)"

text \<open>
  A transport that refuses an envelope carrying a \<open>sent_at\<close> entry, and the bus that
  \<open>NewBus\<close> returns over it.
\<close>

definition strict_publisher ::
  "string \<Rightarrow> Message \<Rightarrow> (string \<times> Message) list \<Rightarrow> err option \<times> (string \<times> Message) list" where
  "strict_publisher topicName msg box =
     (if Metadata msg ''sent_at'' = None then (None, box @ [(topicName, msg)])
      else (Some (Foreign ''unexpected metadata''), box))"

definition strict_bus :: "(string \<times> string, (string \<times> Message) list) cqrsBus" where
  "strict_bus =
     (case NewBus tally example_marshaler \<lparr>Publisher = strict_publisher\<rparr> of
        Inr b \<Rightarrow> b)"

section \<open>Properties\<close>

subsection \<open>The relay handler function\<close>

text \<open>
  C3. In transform mode, when the bound handler returns success, the function that
  \<open>AddHandler\<close> hands to the router returns exactly the singleton list holding the
  received message as the handler left it (the envelope is passed through), and no error.
\<close>

theorem relay_pass_through:
  "Handle handler (Context msg) msg = (None, msg')
   \<Longrightarrow> AddHandler_handlerFunc handler msg = ([msg'], None)"
  by (simp add: AddHandler_handlerFunc_def)

theorem relay_pass_through_witness:
  "Handle stamp_handler (Context order_msg) order_msg
     = (None, order_msg\<lparr>Metadata := [''status'' \<mapsto> ''processed''], Payload := ''processed''\<rparr>)
   \<and> AddHandler_handlerFunc stamp_handler order_msg
     = ([order_msg\<lparr>Metadata := [''status'' \<mapsto> ''processed''], Payload := ''processed''\<rparr>], None)"
proof -
  have h: "Handle stamp_handler (Context order_msg) order_msg
     = (None, order_msg\<lparr>Metadata := [''status'' \<mapsto> ''processed''], Payload := ''processed''\<rparr>)"
    by (simp add: Handle_def stamp_handler_def Metadata_Set_def order_msg_def)
  show ?thesis using h relay_pass_through [OF h] by simp
qed

text \<open>
  C4. In transform mode the function that \<open>AddHandler\<close> hands to the router returns the
  empty message list together with the error \<open>e\<close> exactly when the handler fails with
  \<open>e\<close>: the list is empty if and only if the handler failed, and the error returned is
  always the handler's.
\<close>

theorem relay_failure:
  "(fst (Handle handler (Context msg) msg) = Some e)
     = (AddHandler_handlerFunc handler msg = ([], Some e))
   \<and> (fst (AddHandler_handlerFunc handler msg) = [])
     = (fst (Handle handler (Context msg) msg) \<noteq> None)
   \<and> snd (AddHandler_handlerFunc handler msg) = fst (Handle handler (Context msg) msg)"
  by (auto simp: AddHandler_handlerFunc_def split: prod.splits option.splits)

theorem relay_failure_witness:
  "fst (Handle reject_handler (Context order_msg) order_msg)
     = Some (Foreign ''failed to unmarshal order'')
   \<and> AddHandler_handlerFunc reject_handler order_msg
     = ([], Some (Foreign ''failed to unmarshal order''))"
proof -
  have h: "fst (Handle reject_handler (Context order_msg) order_msg)
     = Some (Foreign ''failed to unmarshal order'')"
    by (simp add: Handle_def reject_handler_def)
  have "(fst (Handle reject_handler (Context order_msg) order_msg)
           = Some (Foreign ''failed to unmarshal order''))
     = (AddHandler_handlerFunc reject_handler order_msg
           = ([], Some (Foreign ''failed to unmarshal order'')))"
    using relay_failure [of reject_handler order_msg "Foreign ''failed to unmarshal order''"]
    by (rule conjunct1)
  with h show ?thesis by blast
qed

subsection \<open>Registration and the running state\<close>

lemma NewRouter_example: "NewRouter relay_ops \<lparr>CloseTimeout = None\<rparr> = Inr example_router"
  by (simp add: NewRouter_def relay_ops_def spec_NewRouter_def example_router_def)

text \<open>
  C1 (as amended). Over every wrapped router: in every state in which \<open>Running\<close> is
  true, \<open>AddHandler\<close> and \<open>AddNoPublisherHandler\<close> fail with the invalid-argument error
  and return the router unchanged. \<open>AddMiddleware\<close> and \<open>AddPlugin\<close>, in every state,
  make no check of the running state and report no error: they hand the addition to the
  wrapped router and the state afterwards is the one that router returns. Over the router
  as the specification describes it, that state is the state before while it runs.
\<close>

theorem running_router_rejects_handlers:
  "(Running W r \<longrightarrow>
      AddHandler W hn st pt sub pub h r
        = (Some (syserr_New InvalidArgumentCode ''cannot add handler to running router''), r)
    \<and> AddNoPublisherHandler W hn st sub h r
        = (Some (syserr_New InvalidArgumentCode ''cannot add handler to running router''), r))
   \<and> AddMiddleware W m r = r\<lparr>router := Router_AddMiddleware W m (router r)\<rparr>
   \<and> AddPlugin W q r = r\<lparr>router := Router_AddPlugin W q (router r)\<rparr>
   \<and> fst (register W (CallAddMiddleware m) r) = None
   \<and> fst (register W (CallAddPlugin q) r) = None
   \<and> (Running relay_ops r' \<longrightarrow>
        AddMiddleware relay_ops m' r' = r' \<and> AddPlugin relay_ops q' r' = r')"
  by (simp add: Running_def AddHandler_def AddNoPublisherHandler_def AddMiddleware_def
      AddPlugin_def relay_ops_def spec_IsRunning_def spec_AddMiddleware_def spec_AddPlugin_def)

theorem running_router_rejects_handlers_witness:
  "Running relay_ops running_router
   \<and> AddHandler relay_ops ''late'' ''orders.created'' ''orders.processed'' ''sub'' ''pub''
         stamp_handler running_router
       = (Some (SysErr InvalidArgumentCode ''cannot add handler to running router''),
          running_router)
   \<and> AddNoPublisherHandler relay_ops ''late'' ''orders.created'' ''sub'' stamp_handler
         running_router
       = (Some (SysErr InvalidArgumentCode ''cannot add handler to running router''),
          running_router)
   \<and> AddMiddleware relay_ops ''retry'' running_router = running_router
   \<and> AddPlugin relay_ops ''signals'' running_router = running_router"
proof -
  have h: "Running relay_ops running_router"
    by (simp add: Running_def relay_ops_def spec_IsRunning_def running_router_def
        spec_Run_begin_def example_router_def)
  note t = running_router_rejects_handlers [of relay_ops running_router "''late''"
      "''orders.created''" "''orders.processed''" "''sub''" "''pub''" stamp_handler
      "''retry''" "''signals''" running_router "''retry''" "''signals''"]
  from t h have a:
    "AddHandler relay_ops ''late'' ''orders.created'' ''orders.processed'' ''sub'' ''pub''
         stamp_handler running_router
       = (Some (syserr_New InvalidArgumentCode ''cannot add handler to running router''),
          running_router)
     \<and> AddNoPublisherHandler relay_ops ''late'' ''orders.created'' ''sub'' stamp_handler
         running_router
       = (Some (syserr_New InvalidArgumentCode ''cannot add handler to running router''),
          running_router)"
    by blast
  from t h have b:
    "AddMiddleware relay_ops ''retry'' running_router = running_router
     \<and> AddPlugin relay_ops ''signals'' running_router = running_router"
    by blast
  show ?thesis using h a b by (simp add: syserr_New_def)
qed

text \<open>
  C1 as stated fails: on the running router a middleware addition and a plugin addition
  do not fail. Neither method has an error result, so their caller is told nothing.
\<close>

theorem middleware_addition_does_not_fail:
  "Running relay_ops running_router
   \<and> fst (register relay_ops (CallAddMiddleware ''retry'') running_router) = None
   \<and> fst (register relay_ops (CallAddPlugin ''signals'') running_router) = None"
  by (simp add: Running_def relay_ops_def spec_IsRunning_def running_router_def
      spec_Run_begin_def example_router_def)

text \<open>
  C10. Over every wrapped router, whenever the router is not running, \<open>AddHandler\<close> and
  \<open>AddNoPublisherHandler\<close> return \<^verbatim>\<open>nil\<close>: the running-state check is the only error path
  of the wrapper, and what the wrapped router makes of the registration (a handler name
  used twice, for one) never reaches the returned error.
\<close>

theorem not_running_registration_returns_nil:
  "\<not> Running W r \<Longrightarrow>
     fst (AddHandler W hn st pt sub pub h r) = None
   \<and> fst (AddNoPublisherHandler W hn st sub h r) = None"
  by (simp add: Running_def AddHandler_def AddNoPublisherHandler_def)

lemma configured_router_eq:
  "configured_router =
     example_router\<lparr>router := (router example_router)
        \<lparr>registrations :=
           [\<lparr>logical_name = ''order_processor'', reg_topic = ''orders.created'',
             reg_kind = Relay,
             handler_reference =
               Transform ''sub'' ''orders.processed'' ''pub''
                 (AddHandler_handlerFunc stamp_handler)\<rparr>],
         phase := PConfigured\<rparr>\<rparr>"
  by (simp add: configured_router_def AddHandler_def relay_ops_def spec_IsRunning_def
      example_router_def spec_register_def configured_def)

theorem not_running_registration_returns_nil_witness:
  "\<not> Running relay_ops configured_router
   \<and> map logical_name (registrations (router configured_router)) = [''order_processor'']
   \<and> fst (AddHandler relay_ops ''order_processor'' ''orders.created'' ''orders.processed''
            ''sub'' ''pub'' reject_handler configured_router) = None
   \<and> fst (AddNoPublisherHandler relay_ops ''order_processor'' ''orders.created'' ''sub''
            reject_handler configured_router) = None"
proof -
  have h: "\<not> Running relay_ops configured_router"
    by (simp add: configured_router_eq Running_def relay_ops_def spec_IsRunning_def)
  have n: "map logical_name (registrations (router configured_router)) = [''order_processor'']"
    by (simp add: configured_router_eq)
  show ?thesis
    using h n not_running_registration_returns_nil [OF h, of "''order_processor''"
        "''orders.created''" "''orders.processed''" "''sub''" "''pub''" reject_handler]
    by simp
qed

subsection \<open>The lifecycle\<close>

lemma spec_Close_not_running: "\<not> spec_IsRunning (snd (spec_Close s))"
  by (cases "phase s") (simp_all add: spec_Close_def spec_IsRunning_def)

text \<open>
  On the code, for every wrapped router: \<open>Close\<close> and \<open>Run\<close> leave the wrapped router in
  the state its own \<open>Close\<close> and \<open>Run\<close> return, and they return an error exactly when that
  call does (the error wrapped).
\<close>

lemma Close_router: "router (snd (Close W r)) = snd (Router_Close W (router r))"
  by (simp add: Close_def Let_def split: prod.splits option.splits)

lemma Close_result:
  "fst (Close W r) = map_option (\<lambda>x. syserr_WrapAsIs x ''failed to close router'' [])
                       (fst (Router_Close W (router r)))"
  by (simp add: Close_def Let_def split: prod.splits option.splits)

lemma Run_router: "router (snd (Run W ctx r)) = snd (Router_Run W ctx (router r))"
  by (simp add: Run_def Let_def split: prod.splits option.splits)

lemma Run_result:
  "fst (Run W ctx r) = map_option (\<lambda>x. syserr_WrapAsIs x ''router run failed'' [])
                         (fst (Router_Run W ctx (router r)))"
  by (simp add: Run_def Let_def split: prod.splits option.splits)

text \<open>
  C8. Over the router modelled from section 4.6: \<open>Close\<close> on a router on which \<open>Run\<close> has
  not been started returns without error and leaves the wrapped router as it was; after
  \<open>Close\<close>, in whatever state it was called, the router is not running; and \<open>Run\<close> on a
  closed instance fails with the wrapped terminal-state error and leaves the instance
  closed, not running.
\<close>

theorem close_before_run_and_run_after_close:
  "(phase (router r) = PCreated \<or> phase (router r) = PConfigured \<longrightarrow>
      fst (Close relay_ops r) = None \<and> router (snd (Close relay_ops r)) = router r)
   \<and> \<not> Running relay_ops (snd (Close relay_ops r))
   \<and> (phase (router r) = PClosed \<longrightarrow>
        fst (Run relay_ops ctx r)
          = Some (syserr_WrapAsIs TerminalStateError ''router run failed'' [])
      \<and> router (snd (Run relay_ops ctx r)) = router r
      \<and> \<not> Running relay_ops (snd (Run relay_ops ctx r)))"
proof -
  have a: "phase (router r) = PCreated \<or> phase (router r) = PConfigured \<longrightarrow>
      fst (Close relay_ops r) = None \<and> router (snd (Close relay_ops r)) = router r"
    by (auto simp: Close_result Close_router relay_ops_def spec_Close_def)
  have b: "\<not> Running relay_ops (snd (Close relay_ops r))"
    using spec_Close_not_running [of "router r"]
    by (simp add: Running_def Close_router relay_ops_def)
  have c: "phase (router r) = PClosed \<longrightarrow>
        fst (Run relay_ops ctx r)
          = Some (syserr_WrapAsIs TerminalStateError ''router run failed'' [])
      \<and> router (snd (Run relay_ops ctx r)) = router r
      \<and> \<not> Running relay_ops (snd (Run relay_ops ctx r))"
    by (simp add: Run_result Run_router Running_def relay_ops_def spec_Run_def
        spec_IsRunning_def)
  from a b c show ?thesis by blast
qed

theorem close_before_run_and_run_after_close_witness:
  "phase (router example_router) = PCreated
   \<and> fst (Close relay_ops example_router) = None
   \<and> router (snd (Close relay_ops example_router)) = router example_router
   \<and> fst (Close relay_ops running_router) = None
   \<and> phase (router closed_router) = PClosed
   \<and> fst (Run relay_ops Background closed_router)
       = Some (Wrapped TerminalStateError ''router run failed'' [])
   \<and> router (snd (Run relay_ops Background closed_router)) = router closed_router"
proof -
  have p: "phase (router example_router) = PCreated"
    by (simp add: example_router_def)
  have q: "phase (router closed_router) = PClosed"
    by (simp add: closed_router_def Close_router relay_ops_def spec_Close_def
        running_router_def spec_Run_begin_def example_router_def)
  have e: "fst (Close relay_ops running_router) = None"
    by (simp add: Close_result relay_ops_def spec_Close_def running_router_def
        spec_Run_begin_def example_router_def)
  show ?thesis
    using p q e close_before_run_and_run_after_close [of example_router Background]
      close_before_run_and_run_after_close [of closed_router Background]
    by (simp add: syserr_WrapAsIs_def)
qed

subsection \<open>The publisher wrapper\<close>

text \<open>
  C9. \<open>Publish\<close> ignores its context argument: for every transport, topic, message and
  publisher state, any two contexts give the same call of the wrapped transport, the same
  log output and the same result.
\<close>

theorem publish_ignores_context:
  "Publish transport_Publish c1 topic msg p = Publish transport_Publish c2 topic msg p"
  by (simp add: Publish_def)

subsection \<open>The CQRS bus\<close>

text \<open>
  C6 (as amended). \<open>OnHandle\<close>, for commands and for events, returns exactly the error
  of the handler invocation it wraps and leaves the transport as the handler left it, so
  a handle succeeds if and only if it would succeed without the hook. \<open>OnSend\<close> and
  \<open>OnPublish\<close> always return success, and all they change of the envelope is one
  metadata entry (\<open>sent_at\<close>, \<open>published_at\<close>). The publisher receives the envelope with
  that entry: a publish succeeds if and only if it would succeed without the hook
  whenever the publisher's verdict does not depend on the entry.
\<close>

theorem hooks_preserve_outcome:
  "fst (CommandProcessor_OnHandle hc n cmd msg w) = fst (Handler_Handle hc (Context msg) cmd w)
   \<and> transport (snd (CommandProcessor_OnHandle hc n cmd msg w))
       = transport (snd (Handler_Handle hc (Context msg) cmd w))
   \<and> fst (EventProcessor_OnHandle he n evt msg w) = fst (Handler_Handle he (Context msg) evt w)
   \<and> transport (snd (EventProcessor_OnHandle he n evt msg w))
       = transport (snd (Handler_Handle he (Context msg) evt w))
   \<and> fst (CommandBus_OnSend time_String n cmd msg w) = None
   \<and> fst (EventBus_OnPublish time_String n evt msg w) = None
   \<and> fst (snd (CommandBus_OnSend time_String n cmd msg w))
       = Metadata_Set ''sent_at'' (time_String (time_Now w)) msg
   \<and> fst (snd (EventBus_OnPublish time_String n evt msg w))
       = Metadata_Set ''published_at'' (time_String (time_Now w)) msg
   \<and> ((\<forall>t m x. fst (bus_publisher cb t (Metadata_Set ''sent_at'' (time_String (time_Now w)) m) x)
                 = fst (bus_publisher cb t m x))
        \<longrightarrow> OnSend (bus_config cb) = Some (CommandBus_OnSend time_String)
        \<longrightarrow> fst (cqrs_Send cb ctx cmd w) = fst (cqrs_Send (without_hook cb) ctx cmd w))
   \<and> ((\<forall>t m x. fst (bus_publisher eb t
                        (Metadata_Set ''published_at'' (time_String (time_Now w)) m) x)
                 = fst (bus_publisher eb t m x))
        \<longrightarrow> OnSend (bus_config eb) = Some (EventBus_OnPublish time_String)
        \<longrightarrow> fst (cqrs_Send eb ctx evt w) = fst (cqrs_Send (without_hook eb) ctx evt w))"
proof -
  have hooks:
    "fst (CommandProcessor_OnHandle hc n cmd msg w) = fst (Handler_Handle hc (Context msg) cmd w)
     \<and> transport (snd (CommandProcessor_OnHandle hc n cmd msg w))
         = transport (snd (Handler_Handle hc (Context msg) cmd w))
     \<and> fst (EventProcessor_OnHandle he n evt msg w) = fst (Handler_Handle he (Context msg) evt w)
     \<and> transport (snd (EventProcessor_OnHandle he n evt msg w))
         = transport (snd (Handler_Handle he (Context msg) evt w))
     \<and> fst (CommandBus_OnSend time_String n cmd msg w) = None
     \<and> fst (EventBus_OnPublish time_String n evt msg w) = None
     \<and> fst (snd (CommandBus_OnSend time_String n cmd msg w))
         = Metadata_Set ''sent_at'' (time_String (time_Now w)) msg
     \<and> fst (snd (EventBus_OnPublish time_String n evt msg w))
         = Metadata_Set ''published_at'' (time_String (time_Now w)) msg"
    by (simp add: CommandProcessor_OnHandle_def EventProcessor_OnHandle_def
        CommandBus_OnSend_def EventBus_OnPublish_def logger_Info_def time_Now_def Let_def
        split: prod.splits)
  have send:
    "(\<forall>t m x. fst (bus_publisher cb t (Metadata_Set ''sent_at'' (time_String (time_Now w)) m) x)
                 = fst (bus_publisher cb t m x))
        \<longrightarrow> OnSend (bus_config cb) = Some (CommandBus_OnSend time_String)
        \<longrightarrow> fst (cqrs_Send cb ctx cmd w) = fst (cqrs_Send (without_hook cb) ctx cmd w)"
    by (rule impI, rule impI)
       (simp add: cqrs_Send_def without_hook_def CommandBus_OnSend_def logger_Info_def
        time_Now_def Let_def case_prod_beta split: sum.splits option.splits)
  have publish:
    "(\<forall>t m x. fst (bus_publisher eb t
                        (Metadata_Set ''published_at'' (time_String (time_Now w)) m) x)
                 = fst (bus_publisher eb t m x))
        \<longrightarrow> OnSend (bus_config eb) = Some (EventBus_OnPublish time_String)
        \<longrightarrow> fst (cqrs_Send eb ctx evt w) = fst (cqrs_Send (without_hook eb) ctx evt w)"
    by (rule impI, rule impI)
       (simp add: cqrs_Send_def without_hook_def EventBus_OnPublish_def logger_Info_def
        time_Now_def Let_def case_prod_beta split: sum.splits option.splits)
  from hooks send publish show ?thesis by blast
qed

theorem hooks_preserve_outcome_witness:
  "(\<forall>t m x. fst (bus_publisher (commandBus example_bus) t
                     (Metadata_Set ''sent_at'' (tally (time_Now world0)) m) x)
               = fst (bus_publisher (commandBus example_bus) t m x))
   \<and> OnSend (bus_config (commandBus example_bus)) = Some (CommandBus_OnSend tally)
   \<and> fst (cqrs_Send (commandBus example_bus) Background (''CreateOrder'', ''body'') world0)
       = fst (cqrs_Send (without_hook (commandBus example_bus)) Background
                (''CreateOrder'', ''body'') world0)
   \<and> fst (PublishCommand example_bus Background (''CreateOrder'', ''body'') world0) = None
   \<and> fst (CommandProcessor_OnHandle (cqrs_NewCommandHandler ''notify'' failing_handler)
            ''CreateOrder'' (''CreateOrder'', ''body'') order_msg world0)
       = Some (Foreign ''email failed'')"
proof -
  have p: "bus_publisher (commandBus example_bus) = outbox_publisher"
    by (simp add: example_bus_def NewBus_def spec_NewRouter_def)
  have i: "\<forall>t m x. fst (bus_publisher (commandBus example_bus) t
                     (Metadata_Set ''sent_at'' (tally (time_Now world0)) m) x)
               = fst (bus_publisher (commandBus example_bus) t m x)"
    by (simp add: p outbox_publisher_def)
  have o: "OnSend (bus_config (commandBus example_bus)) = Some (CommandBus_OnSend tally)"
    by (simp add: example_bus_def NewBus_def spec_NewRouter_def)
  note t = hooks_preserve_outcome [where cb = "commandBus example_bus" and w = world0
      and time_String = tally and ctx = Background and cmd = "(''CreateOrder'', ''body'')"
      and hc = "cqrs_NewCommandHandler ''notify'' failing_handler" and n = "''CreateOrder''"
      and msg = order_msg and he = "cqrs_NewEventHandler ''audit'' audit_handler"
      and evt = "(''OrderCreated'', ''body'')" and eb = "eventBus example_bus"]
  from t i o have s:
    "fst (cqrs_Send (commandBus example_bus) Background (''CreateOrder'', ''body'') world0)
       = fst (cqrs_Send (without_hook (commandBus example_bus)) Background
                (''CreateOrder'', ''body'') world0)"
    by blast
  from t have h:
    "fst (CommandProcessor_OnHandle (cqrs_NewCommandHandler ''notify'' failing_handler)
            ''CreateOrder'' (''CreateOrder'', ''body'') order_msg world0)
       = fst (Handler_Handle (cqrs_NewCommandHandler ''notify'' failing_handler)
                (Context order_msg) (''CreateOrder'', ''body'') world0)"
    by blast
  have n: "fst (PublishCommand example_bus Background (''CreateOrder'', ''body'') world0) = None"
    by (simp add: PublishCommand_def cqrs_Send_def example_bus_def NewBus_def
        spec_NewRouter_def example_marshaler_def CommandBus_OnSend_def
        CommandBus_GeneratePublishTopic_def outbox_publisher_def Let_def)
  have f: "fst (Handler_Handle (cqrs_NewCommandHandler ''notify'' failing_handler)
                (Context order_msg) (''CreateOrder'', ''body'') world0)
       = Some (Foreign ''email failed'')"
    by (simp add: Handler_Handle_def cqrs_NewCommandHandler_def failing_handler_def)
  from i o s n h f show ?thesis by simp
qed

text \<open>
  C6 as stated fails: over a transport that refuses an envelope carrying a \<open>sent_at\<close>
  entry, publishing a command fails with the hook that \<open>NewBus\<close> configures and succeeds
  on the same bus with the hook left unset.
\<close>

theorem stamped_envelope_refused:
  "fst (PublishCommand strict_bus Background (''CreateOrder'', ''body'') world0)
     = Some (Foreign ''unexpected metadata'')
   \<and> fst (PublishCommand (strict_bus\<lparr>commandBus := without_hook (commandBus strict_bus)\<rparr>)
            Background (''CreateOrder'', ''body'') world0) = None"
  by (simp add: PublishCommand_def cqrs_Send_def strict_bus_def NewBus_def
      spec_NewRouter_def example_marshaler_def CommandBus_OnSend_def without_hook_def
      CommandBus_GeneratePublishTopic_def strict_publisher_def Metadata_Set_def Let_def)

text \<open>
  C7. For the bus that \<open>NewBus\<close> builds and every value the marshaler serializes,
  \<open>PublishCommand\<close> is one call of the configured publisher: on the topic that the command
  naming strategy gives for the value's logical name, with the serialized envelope (its
  payload untouched) carrying the metadata entry \<open>sent_at\<close> that the pre-send hook set
  from the clock before the call.
\<close>

theorem publish_command_pipeline:
  "NewBus time_String mar cfg = Inr b \<Longrightarrow> Marshal mar cmd = Inr msg0 \<Longrightarrow>
     PublishCommand b ctx cmd w =
       (let w1 = logger_Info ctx ''Sending command'' [(''command_name'', AStr (Name mar cmd))] w;
            msg2 = Metadata_Set ''sent_at'' (time_String (time_Now w)) (msg0\<lparr>Context := ctx\<rparr>);
            (e, t) = Publisher cfg (generateCommandTopic (Name mar cmd)) msg2 (transport w)
        in (e, w1\<lparr>transport := t\<rparr>))
   \<and> Payload (Metadata_Set ''sent_at'' (time_String (time_Now w)) (msg0\<lparr>Context := ctx\<rparr>))
       = Payload msg0
   \<and> Metadata (Metadata_Set ''sent_at'' (time_String (time_Now w)) (msg0\<lparr>Context := ctx\<rparr>))
        ''sent_at'' = Some (time_String (time_Now w))"
  by (auto simp: NewBus_def spec_NewRouter_def PublishCommand_def cqrs_Send_def
      CommandBus_OnSend_def CommandBus_GeneratePublishTopic_def logger_Info_def
      Metadata_Set_def time_Now_def Let_def split: prod.splits)

theorem publish_command_pipeline_witness:
  "NewBus tally example_marshaler \<lparr>Publisher = outbox_publisher\<rparr> = Inr example_bus
   \<and> fst (PublishCommand example_bus (WithCancel Background False) (''CreateOrder'', ''body'')
            world0) = None
   \<and> map (\<lambda>(t, m). (t, Payload m, Metadata m ''sent_at''))
        (transport (snd (PublishCommand example_bus (WithCancel Background False)
                           (''CreateOrder'', ''body'') world0)))
       = [(''commands.CreateOrder'', ''body'', Some ''|||'')]"
proof -
  have b: "NewBus tally example_marshaler \<lparr>Publisher = outbox_publisher\<rparr> = Inr example_bus"
    by (simp add: example_bus_def NewBus_def spec_NewRouter_def)
  have m: "Marshal example_marshaler (''CreateOrder'', ''body'')
      = Inr \<lparr>UUID = ''u-1'', Metadata = [''name'' \<mapsto> ''CreateOrder''], Payload = ''body'',
             Context = Background\<rparr>"
    by (simp add: example_marshaler_def)
  show ?thesis
    using b publish_command_pipeline [OF b m, of "WithCancel Background False" world0]
    by (simp add: outbox_publisher_def world0_def logger_Info_def Metadata_Set_def
        time_Now_def generateCommandTopic_def example_marshaler_def tally_def Let_def
        eval_nat_numeral)
qed

lemma has_command_handler_iff:
  "has_command_handler rs n = (command_handler_of rs n \<noteq> None)"
  by (auto simp: has_command_handler_def command_handler_of_def list_ex_iff find_None_iff)

text \<open>
  C2. Over the registry modelled from section 4.2: if a command handler is already
  registered for the name \<open>n\<close>, then \<open>RegisterCommandHandler n\<close> with a second handler
  returns the duplicate-registration error and the bus is unchanged; the registry still
  maps \<open>n\<close> to the first handler.
\<close>

theorem duplicate_command_handler_rejected:
  "command_handler_of (bus_router b) n = Some h1 \<Longrightarrow>
     RegisterCommandHandler n handler2 b = (Some (DuplicateRegistration n), b)
   \<and> command_handler_of (bus_router (snd (RegisterCommandHandler n handler2 b))) n = Some h1"
  by (simp add: RegisterCommandHandler_def cqrs_AddHandler_def cqrs_NewCommandHandler_def
      has_command_handler_iff)

theorem duplicate_command_handler_rejected_witness:
  "fst (RegisterCommandHandler ''CreateOrder'' audit_handler example_bus) = None
   \<and> command_handler_of (bus_router registered_bus) ''CreateOrder''
       = Some (cqrs_NewCommandHandler ''CreateOrder'' audit_handler)
   \<and> RegisterCommandHandler ''CreateOrder'' failing_handler registered_bus
       = (Some (DuplicateRegistration ''CreateOrder''), registered_bus)
   \<and> command_handler_of
         (bus_router (snd (RegisterCommandHandler ''CreateOrder'' failing_handler registered_bus)))
         ''CreateOrder''
       = Some (cqrs_NewCommandHandler ''CreateOrder'' audit_handler)"
proof -
  have first: "fst (RegisterCommandHandler ''CreateOrder'' audit_handler example_bus) = None"
    by (simp add: RegisterCommandHandler_def cqrs_AddHandler_def example_bus_def NewBus_def
        spec_NewRouter_def has_command_handler_def spec_IsRunning_def
        CommandProcessor_GenerateSubscribeTopic_def cqrs_NewCommandHandler_def)
  have h: "command_handler_of (bus_router registered_bus) ''CreateOrder''
       = Some (cqrs_NewCommandHandler ''CreateOrder'' audit_handler)"
    by (simp add: registered_bus_def RegisterCommandHandler_def cqrs_AddHandler_def
        example_bus_def NewBus_def spec_NewRouter_def has_command_handler_def spec_IsRunning_def
        CommandProcessor_GenerateSubscribeTopic_def cqrs_NewCommandHandler_def
        spec_register_def configured_def command_handler_of_def)
  show ?thesis
    using first h duplicate_command_handler_rejected [OF h, of failing_handler]
    by simp
qed

subsection \<open>Topic naming\<close>

text \<open>
  C5. The default naming strategy sends every command name \<open>n\<close> to \<open>commands.n\<close> and every
  event name \<open>n\<close> to \<open>events.n\<close>; in particular \<open>CreateOrder\<close> gives \<open>commands.CreateOrder\<close>
  and \<open>OrderCreated\<close> gives \<open>events.OrderCreated\<close>. The mapping is a function of the name
  alone.
\<close>

theorem default_topic_naming:
  "generateCommandTopic n = ''commands.'' @ n
   \<and> generateEventTopic n = ''events.'' @ n
   \<and> generateCommandTopic ''CreateOrder'' = ''commands.CreateOrder''
   \<and> generateEventTopic ''OrderCreated'' = ''events.OrderCreated''"
  by (simp add: generateCommandTopic_def generateEventTopic_def)

end
